theory Spec2Isabelle
  imports Main "HOL-Library.Sublist"
begin

section \<open>Data model\<close>

text \<open>
  The values of the \<open>oid\<close> property of a profile object. The identity provider issues
  the \<open>oid\<close> claim as a string, so the property is missing (\<open>undefined\<close>), is \<open>null\<close>, or
  is a string. \<open>truthy\<close> is JavaScript's conversion to boolean, which \<open>!profile.oid\<close>
  negates: \<open>undefined\<close>, \<open>null\<close> and the empty string are falsy, every other string is
  truthy. The strict equality \<open>===\<close> of the source on these values is equality of the
  datatype.
\<close>

datatype jsval = JUndefined | JNull | JString string

fun truthy :: "jsval \<Rightarrow> bool" where
  "truthy JUndefined = False"
| "truthy JNull = False"
| "truthy (JString s) = (s \<noteq> [])"

text \<open>
  A profile object: the identity key \<open>oid\<close> and the other provider-supplied claims. The
  code reads \<open>oid\<close> only.
\<close>

record profile =
  oid :: jsval
  claims :: "(string \<times> jsval) list"

datatype js_error = Error string

type_synonym directory = "profile list"

text \<open>\<open>const loggedInUsers = []\<close>: the User Directory at process start.\<close>

definition loggedInUsers :: directory where
  "loggedInUsers = []"

section \<open>Identity resolver and session serializer\<close>

text \<open>
  The source is written in callback style, and so is the model: a function takes its
  callback and returns what the callback returns. Callbacks that run against the User
  Directory take it as their last argument, and hand on the directory they leave behind.
  \<open>Array.prototype.find\<close> is \<open>List.find\<close>: the first element satisfying the predicate,
  \<open>None\<close> for \<open>undefined\<close>.
\<close>

definition findUser ::
    "jsval \<Rightarrow> (js_error option \<Rightarrow> profile option \<Rightarrow> directory \<Rightarrow> 'r) \<Rightarrow> directory \<Rightarrow> 'r" where
  "findUser x callback users = callback None (find (\<lambda>user. oid user = x) users) users"

definition serializeUser :: "profile \<Rightarrow> (js_error option \<Rightarrow> jsval \<Rightarrow> 'r) \<Rightarrow> 'r" where
  "serializeUser user done = done None (oid user)"

definition deserializeUser ::
    "jsval \<Rightarrow> (js_error option \<Rightarrow> profile option \<Rightarrow> directory \<Rightarrow> 'r) \<Rightarrow> directory \<Rightarrow> 'r" where
  "deserializeUser x done users = findUser x (\<lambda>err user. done err user) users"

section \<open>Authentication strategy adapter\<close>

text \<open>
  The verify callback of the OIDC strategy. Of its arguments \<open>iss\<close>, \<open>sub\<close>,
  \<open>accessToken\<close> and \<open>refreshToken\<close> are never read, so the model takes \<open>profile\<close> and
  \<open>done\<close>. The lookup is deferred with \<open>process.nextTick\<close>; the check of \<open>oid\<close> before it
  does not touch the directory and the deferred function runs without interruption, so
  \<open>users\<close> is the directory at the moment the deferred function runs.
\<close>

definition verify ::
    "profile \<Rightarrow> (js_error option \<Rightarrow> profile option \<Rightarrow> directory \<Rightarrow> 'r) \<Rightarrow> directory \<Rightarrow> 'r" where
  "verify profile done users =
     (if \<not> truthy (oid profile) then done (Some (Error ''No oid found'')) None users
      else findUser (oid profile)
             (\<lambda>err user users.
                if err \<noteq> None then done err None users
                else if user = None then done None (Some profile) (users @ [profile])
                else done None user users)
             users)"

text \<open>The arguments a callback was invoked with, and the directory it was handed.\<close>

definition observe :: "js_error option \<Rightarrow> 'a \<Rightarrow> directory \<Rightarrow> js_error option \<times> 'a \<times> directory" where
  "observe err res users = (err, res, users)"

section \<open>Operations on the User Directory\<close>

text \<open>
  The four functions of the source that run against the directory, each with a callback
  that keeps the directory it is handed. \<open>directory_after ops\<close> is the directory of a
  process that has run the operations \<open>ops\<close>, in this order, since it started.
\<close>

datatype operation =
    FindUser jsval
  | SerializeUser profile
  | DeserializeUser jsval
  | Verify profile

fun exec :: "directory \<Rightarrow> operation \<Rightarrow> directory" where
  "exec users (FindUser x) = findUser x (\<lambda>err user users'. users') users"
| "exec users (SerializeUser user) = serializeUser user (\<lambda>err x. users)"
| "exec users (DeserializeUser x) = deserializeUser x (\<lambda>err user users'. users') users"
| "exec users (Verify p) = verify p (\<lambda>err user users'. users') users"

definition directory_after :: "operation list \<Rightarrow> directory" where
  "directory_after ops = foldl exec loggedInUsers ops"

section \<open>Configuration\<close>

text \<open>
  \<open>config.js\<close>: the server port and the provider's logout URL, a template literal that
  ends in the port number. \<open>string_of_nat\<close> is the decimal notation that the template
  literal gives a non-negative integer.
\<close>

fun string_of_nat :: "nat \<Rightarrow> string" where
  "string_of_nat n =
     (if n < 10 then [''0123456789'' ! n]
      else string_of_nat (n div 10) @ [''0123456789'' ! (n mod 10)])"

definition serverPort :: nat where
  "serverPort = 3000"

definition destroySessionUrl :: string where
  "destroySessionUrl =
     ''https://login.microsoftonline.com/common/oauth2/logout?post_logout_redirect_uri=http://localhost:''
       @ string_of_nat serverPort"

section \<open>Route controller\<close>

text \<open>
  What the handlers read and write of a request: the serialized identity its session
  holds (\<open>None\<close> when the session holds none) and the user context \<open>req.user\<close>. A response
  is a redirect or a JSON body, given as its fields.
\<close>

record request =
  session_user :: "jsval option"
  req_user :: "profile option"

datatype response = Redirect string | Send "(string \<times> string) list"

text \<open>
  Modelled from the spec: \<open>req.isAuthenticated()\<close> belongs to the external authentication
  library, which is not part of the repository. By sections 3 and 4.4 a request is
  authenticated when it carries the user restored from its session.
\<close>

definition isAuthenticated :: "request \<Rightarrow> bool" where
  "isAuthenticated req = (req_user req \<noteq> None)"

text \<open>
  Modelled from the spec: \<open>req.logOut()\<close> belongs to the same library. By section 4.4
  logging out clears the local authentication state: the identity held by the session
  and the user context of the request.
\<close>

definition logOut :: "request \<Rightarrow> request" where
  "logOut req = req\<lparr>session_user := None, req_user := None\<rparr>"

definition ensureAuthenticated :: "request \<Rightarrow> (request \<Rightarrow> response) \<Rightarrow> response" where
  "ensureAuthenticated req next =
     (if isAuthenticated req then next req else Redirect ''/login'')"

definition api_handler :: "request \<Rightarrow> response" where
  "api_handler req = Send [(''message'', ''Respone from API endpoint'')]"

definition get_api :: "request \<Rightarrow> response" where
  "get_api req = ensureAuthenticated req api_handler"

text \<open>
  \<open>GET /logout\<close>. \<open>req.session.destroy\<close> belongs to the session middleware; the model
  takes it as the parameter \<open>destroy\<close>, which returns the error it reports (if any) and
  the request it leaves behind. The handler's callback receives both.
\<close>

definition logout_callback :: "request \<Rightarrow> js_error option \<Rightarrow> request \<times> response" where
  "logout_callback req err = (logOut req, Redirect destroySessionUrl)"

definition get_logout ::
    "(request \<Rightarrow> js_error option \<times> request) \<Rightarrow> request \<Rightarrow> request \<times> response" where
  "get_logout destroy req = (case destroy req of (err, req') \<Rightarrow> logout_callback req' err)"

section \<open>The library's side of the callbacks\<close>

text \<open>
  Modelled from the spec: what the external authentication library does with the outcome
  of the verification callback (sections 3, 4.2 and 4.4). An error or a missing user
  aborts the authentication and the session stays as it is; a user is serialized and the
  session stores the identifier.
\<close>

definition verified :: "request \<Rightarrow> js_error option \<Rightarrow> profile option \<Rightarrow> request" where
  "verified req err user =
     (case err of
        Some e \<Rightarrow> req
      | None \<Rightarrow>
          (case user of
             None \<Rightarrow> req
           | Some u \<Rightarrow>
               serializeUser u
                 (\<lambda>err' x. case err' of
                    Some e \<Rightarrow> req
                  | None \<Rightarrow> req\<lparr>session_user := Some x, req_user := Some u\<rparr>)))"

text \<open>
  Modelled from the spec: what the library's session middleware does with the outcome of
  deserialization (sections 4.3 and 7). An error fails the request; an absent user
  clears the user context, so that the request is unauthenticated; a user becomes the
  user context of the request.
\<close>

definition restored :: "request \<Rightarrow> js_error option \<Rightarrow> profile option \<Rightarrow> js_error + request" where
  "restored req err user =
     (case err of
        Some e \<Rightarrow> Inl e
      | None \<Rightarrow>
          (case user of
             None \<Rightarrow> Inr (req\<lparr>session_user := None, req_user := None\<rparr>)
           | Some u \<Rightarrow> Inr (req\<lparr>req_user := Some u\<rparr>)))"

text \<open>
  Modelled from the spec: the library's session middleware, which runs before the route
  handlers of every request (sections 2 and 4.3). A session that holds no identity
  gives a request without user context; otherwise the identity is deserialized and the
  outcome handled as in \<open>restored\<close>.
\<close>

definition session_restore :: "directory \<Rightarrow> request \<Rightarrow> js_error + request" where
  "session_restore users req =
     (case session_user req of
        None \<Rightarrow> Inr (req\<lparr>req_user := None\<rparr>)
      | Some x \<Rightarrow> deserializeUser x (\<lambda>err user users'. restored req err user) users)"

section \<open>Directory invariant\<close>

text \<open>
  No two entries of the directory have the same \<open>oid\<close>, and every entry has a truthy
  \<open>oid\<close>.
\<close>

definition directory_inv :: "directory \<Rightarrow> bool" where
  "directory_inv users = (distinct (map oid users) \<and> list_all (\<lambda>u. truthy (oid u)) users)"

section \<open>Sample data\<close>

definition alice :: profile where
  "alice = \<lparr>oid = JString ''abc'', claims = [(''displayName'', JString ''Alice'')]\<rparr>"

definition alice' :: profile where
  "alice' = \<lparr>oid = JString ''abc'', claims = []\<rparr>"

definition bob :: profile where
  "bob = \<lparr>oid = JString ''xyz'', claims = []\<rparr>"

definition nobody :: profile where
  "nobody = \<lparr>oid = JUndefined, claims = [(''displayName'', JString ''Nobody'')]\<rparr>"

definition anonymous :: request where
  "anonymous = \<lparr>session_user = None, req_user = None\<rparr>"

definition signed_in :: request where
  "signed_in = \<lparr>session_user = Some (JString ''abc''), req_user = Some alice\<rparr>"

definition failing_destroy :: "request \<Rightarrow> js_error option \<times> request" where
  "failing_destroy req = (Some (Error ''store unavailable''), req)"

section \<open>Lemmas on lookup and on the invariant\<close>

lemma find_oid_None: "find (\<lambda>user. oid user = x) users = None \<longleftrightarrow> x \<notin> oid ` set users"
  by (auto simp: find_None_iff)

lemma find_oid_unique:
  "distinct (map oid users) \<Longrightarrow> u \<in> set users \<Longrightarrow> find (\<lambda>user. oid user = oid u) users = Some u"
proof (induction users)
  case Nil
  then show ?case by simp
next
  case (Cons v users)
  then show ?case by (cases "v = u") auto
qed

lemma count_oid_le_1:
  "distinct (map oid users) \<Longrightarrow> length (filter (\<lambda>u. oid u = x) users) \<le> 1"
  by (induction users) (auto simp: filter_empty_conv image_iff)

lemma count_oid_eq_1:
  "distinct (map oid users) \<Longrightarrow> u \<in> set users \<Longrightarrow> length (filter (\<lambda>v. oid v = oid u) users) = 1"
  by (induction users) (auto simp: filter_empty_conv image_iff)

text \<open>An operation leaves the directory alone, or it is a registration that appends.\<close>

lemma exec_cases:
  "exec users op = users \<or>
   (\<exists>p. op = Verify p \<and> truthy (oid p) \<and> oid p \<notin> oid ` set users \<and> exec users op = users @ [p])"
  by (cases op) (auto simp: findUser_def serializeUser_def deserializeUser_def verify_def find_oid_None)

lemma distinct_exec: "distinct (map oid users) \<Longrightarrow> distinct (map oid (exec users op))"
  using exec_cases [of users op] by auto

lemma directory_inv_exec: "directory_inv users \<Longrightarrow> directory_inv (exec users op)"
  using exec_cases [of users op] by (auto simp: directory_inv_def)

lemma directory_inv_foldl: "directory_inv users \<Longrightarrow> directory_inv (foldl exec users ops)"
  by (induction ops arbitrary: users) (simp_all add: directory_inv_exec)

lemma directory_inv_after: "directory_inv (directory_after ops)"
proof -
  have "directory_inv loggedInUsers" by (simp add: directory_inv_def loggedInUsers_def)
  then show ?thesis unfolding directory_after_def by (rule directory_inv_foldl)
qed

lemma prefix_exec: "prefix users (exec users op)"
  using exec_cases [of users op] by auto

lemma prefix_foldl: "prefix users (foldl exec users ops)"
proof (induction ops arbitrary: users)
  case Nil
  show ?case by simp
next
  case (Cons op ops)
  have "prefix users (exec users op)" by (rule prefix_exec)
  also have "prefix (exec users op) (foldl exec (exec users op) ops)" by (rule Cons.IH)
  finally show ?case by simp
qed

lemma directory_after_append: "directory_after (ops @ ops') = foldl exec (directory_after ops) ops'"
  by (simp add: directory_after_def)

lemma directory_after_samples:
  "directory_after [Verify alice, Verify bob] = [alice, bob]"
  "directory_after [Verify bob, Verify alice] = [bob, alice]"
  "directory_after [Verify alice, Verify nobody] = [alice]"
  by (simp_all add: directory_after_def loggedInUsers_def verify_def findUser_def
      alice_def bob_def nobody_def)

section \<open>Lemmas on the verify callback\<close>

lemma verify_truthy:
  "truthy (oid p) \<Longrightarrow>
   verify p done users =
     (case find (\<lambda>user. oid user = oid p) users of
        None \<Rightarrow> done None (Some p) (users @ [p])
      | Some u \<Rightarrow> done None (Some u) users)"
  by (simp add: verify_def findUser_def split: option.splits)

lemma verify_known:
  assumes "directory_inv users" and "u \<in> set users" and "oid p = oid u"
  shows "verify p done users = done None (Some u) users"
proof -
  from assms have t: "truthy (oid p)" by (auto simp: directory_inv_def list_all_iff)
  from assms have "find (\<lambda>user. oid user = oid p) users = Some u"
    by (simp add: directory_inv_def find_oid_unique)
  with t show ?thesis by (simp add: verify_truthy)
qed

lemma verify_new:
  assumes "truthy (oid p)" and "oid p \<notin> oid ` set users"
  shows "verify p done users = done None (Some p) (users @ [p])"
  using assms by (simp add: verify_truthy find_oid_None [THEN iffD2])

lemma verify_resolves:
  assumes "directory_inv users" and "truthy (oid p)"
  shows "\<exists>u users'. verify p observe users = (None, Some u, users') \<and> directory_inv users' \<and>
           u \<in> set users' \<and> oid u = oid p"
proof (cases "find (\<lambda>user. oid user = oid p) users")
  case None
  then have new: "oid p \<notin> oid ` set users" by (simp add: find_oid_None)
  with assms have "directory_inv (users @ [p])" by (auto simp: directory_inv_def)
  moreover from assms new have "verify p observe users = (None, Some p, users @ [p])"
    by (simp add: verify_new observe_def)
  ultimately show ?thesis by auto
next
  case (Some u)
  then have "u \<in> set users" and "oid u = oid p" by (auto simp: find_Some_iff)
  moreover from assms Some have "verify p observe users = (None, Some u, users)"
    by (simp add: verify_truthy observe_def)
  ultimately show ?thesis using assms by auto
qed

section \<open>Properties of the authentication strategy adapter\<close>

text \<open>
  C1. Idempotent registration. Let the process have run any operations \<open>ops\<close>. When the
  adapter is invoked with a profile \<open>p\<close> whose \<open>oid\<close> is a non-empty string and, after
  any further operations \<open>ops'\<close>, again with a profile \<open>q\<close> of the same \<open>oid\<close>, both
  invocations call \<open>done\<close> without an error and with a user record, the same record both
  times, and the directory then holds exactly one entry with that \<open>oid\<close>.
\<close>

theorem verify_twice_single_entry:
  assumes "truthy (oid p)" and "oid q = oid p"
  shows "\<exists>u users1 users2.
           verify p observe (directory_after ops) = (None, Some u, users1) \<and>
           verify q observe (foldl exec users1 ops') = (None, Some u, users2) \<and>
           length (filter (\<lambda>v. oid v = oid p) users2) = 1"
proof -
  from verify_resolves [OF directory_inv_after assms(1)]
  obtain u users1 where
    first: "verify p observe (directory_after ops) = (None, Some u, users1)" and
    inv1: "directory_inv users1" and mem1: "u \<in> set users1" and key: "oid u = oid p"
    by blast
  let ?users2 = "foldl exec users1 ops'"
  from inv1 have inv2: "directory_inv ?users2" by (rule directory_inv_foldl)
  have "prefix users1 ?users2" by (rule prefix_foldl)
  with mem1 have mem2: "u \<in> set ?users2" by (auto simp: prefix_def)
  from inv2 mem2 have "verify q observe ?users2 = observe None (Some u) ?users2"
    by (rule verify_known) (simp add: assms(2) key)
  then have second: "verify q observe ?users2 = (None, Some u, ?users2)"
    by (simp add: observe_def)
  from inv2 mem2 have "length (filter (\<lambda>v. oid v = oid u) ?users2) = 1"
    by (simp add: directory_inv_def count_oid_eq_1)
  with key have "length (filter (\<lambda>v. oid v = oid p) ?users2) = 1" by simp
  with first second show ?thesis by blast
qed

theorem verify_twice_single_entry_witness:
  "truthy (oid alice) \<and> oid alice' = oid alice \<and>
   (\<exists>u users1 users2.
      verify alice observe (directory_after [Verify bob]) = (None, Some u, users1) \<and>
      verify alice' observe (foldl exec users1 [Verify bob, FindUser JNull]) = (None, Some u, users2) \<and>
      length (filter (\<lambda>v. oid v = oid alice) users2) = 1)"
  using verify_twice_single_entry [of alice alice' "[Verify bob]" "[Verify bob, FindUser JNull]"]
  by (simp add: alice_def alice'_def)

text \<open>
  C2. A profile without \<open>oid\<close>. When the \<open>oid\<close> of the profile is missing, \<open>null\<close> or the
  empty string, the adapter does nothing but call \<open>done\<close> with the error
  \<open>Error("No oid found")\<close> (the spec's \<open>IdentityClaimMissing\<close>) and no user, on the
  directory as it was; this holds for every \<open>done\<close>. With the library's handling of that
  outcome for \<open>done\<close>, the request and its session are as before, and so is the directory.
\<close>

theorem verify_without_oid:
  assumes "\<not> truthy (oid p)"
  shows "verify p done users = done (Some (Error ''No oid found'')) None users \<and>
         verify p (\<lambda>err user users'. (verified req err user, users')) users = (req, users)"
  using assms by (simp add: verify_def verified_def)

theorem verify_without_oid_witness:
  "\<not> truthy (oid nobody) \<and>
   verify nobody observe [bob] = (Some (Error ''No oid found''), None, [bob]) \<and>
   verify nobody (\<lambda>err user users'. (verified anonymous err user, users')) [bob] = (anonymous, [bob])"
  using verify_without_oid [of nobody observe "[bob]" anonymous]
  by (simp add: nobody_def observe_def)

text \<open>
  C7. A returning user. When the directory of a running process holds an entry \<open>u\<close> with
  the \<open>oid\<close> of the profile, the adapter calls \<open>done\<close> without an error, with the stored
  record \<open>u\<close>, and on the directory as it was: nothing is added, removed or changed.
\<close>

theorem verify_returning_user:
  assumes "u \<in> set (directory_after ops)" and "oid p = oid u"
  shows "verify p done (directory_after ops) = done None (Some u) (directory_after ops)"
  using directory_inv_after assms by (rule verify_known)

theorem verify_returning_user_witness:
  "alice \<in> set (directory_after [Verify alice, Verify bob]) \<and> oid alice' = oid alice \<and>
   verify alice' observe (directory_after [Verify alice, Verify bob])
     = (None, Some alice, directory_after [Verify alice, Verify bob])"
proof -
  have mem: "alice \<in> set [alice, bob]" and key: "oid alice' = oid alice"
    by (simp_all add: alice_def alice'_def)
  from verify_returning_user [of alice "[Verify alice, Verify bob]" alice' observe]
  show ?thesis unfolding directory_after_samples using mem key by (simp add: observe_def)
qed

text \<open>
  C9. The error branch after the lookup is dead. \<open>findUser\<close> calls its callback with a
  \<open>null\<close> error for every argument and every directory, so the branch \<open>if (err)\<close> of the
  adapter is never taken: for a profile whose \<open>oid\<close> is a non-empty string, and every
  directory, the adapter calls \<open>done\<close> without an error and with a user record.
\<close>

theorem verify_error_branch_unreachable:
  "(\<exists>r. \<forall>callback. findUser x callback users = callback None r users) \<and>
   (truthy (oid p) \<longrightarrow> (\<exists>u users'. \<forall>done. verify p done users = done None (Some u) users'))"
proof (intro conjI impI)
  show "\<exists>r. \<forall>callback. findUser x callback users = callback None r users"
    by (auto simp: findUser_def)
next
  assume "truthy (oid p)"
  then show "\<exists>u users'. \<forall>done. verify p done users = done None (Some u) users'"
    by (cases "find (\<lambda>user. oid user = oid p) users") (auto simp: verify_truthy)
qed

theorem verify_error_branch_unreachable_witness:
  "truthy (oid alice) \<and> verify alice observe [bob] = (None, Some alice, [bob, alice])"
  using verify_error_branch_unreachable [of JNull "[bob]" alice]
  by (simp add: verify_def findUser_def observe_def alice_def bob_def)

section \<open>Properties of the User Directory and the identity resolver\<close>

text \<open>
  C4. The directory invariant. The directory is empty at process start. After any
  operations it holds at most one entry per \<open>oid\<close>, and further operations only append
  to it: the earlier directory is a prefix of the later one. Each single operation, on
  any directory, keeps the \<open>oid\<close>s distinct and the directory as a prefix of its result.
\<close>

theorem directory_unique_append_only:
  "loggedInUsers = [] \<and> directory_after [] = [] \<and>
   distinct (map oid (directory_after ops)) \<and>
   length (filter (\<lambda>u. oid u = x) (directory_after ops)) \<le> 1 \<and>
   prefix (directory_after ops) (directory_after (ops @ ops')) \<and>
   (distinct (map oid users) \<longrightarrow> distinct (map oid (exec users op))) \<and>
   prefix users (exec users op)"
proof -
  have d: "distinct (map oid (directory_after ops))"
    using directory_inv_after [of ops] by (simp add: directory_inv_def)
  from d have c: "length (filter (\<lambda>u. oid u = x) (directory_after ops)) \<le> 1"
    by (rule count_oid_le_1)
  have p: "prefix (directory_after ops) (directory_after (ops @ ops'))"
    by (simp add: directory_after_append prefix_foldl)
  have e: "loggedInUsers = []" "directory_after [] = []"
    by (simp_all add: loggedInUsers_def directory_after_def)
  from e d c p show ?thesis by (simp add: distinct_exec prefix_exec)
qed

theorem directory_unique_append_only_witness:
  "loggedInUsers = [] \<and> directory_after [] = [] \<and>
   distinct (map oid (directory_after [Verify alice, Verify bob])) \<and>
   length (filter (\<lambda>u. oid u = JString ''abc'') (directory_after [Verify alice, Verify bob])) \<le> 1 \<and>
   prefix (directory_after [Verify alice, Verify bob])
          (directory_after ([Verify alice, Verify bob] @ [Verify alice', DeserializeUser JNull])) \<and>
   distinct (map oid [alice]) \<and> distinct (map oid (exec [alice] (Verify alice'))) \<and>
   prefix [alice] (exec [alice] (Verify alice'))"
  using directory_unique_append_only
          [of "[Verify alice, Verify bob]" "JString ''abc''" "[Verify alice', DeserializeUser JNull]"
              "[alice]" "Verify alice'"]
  by simp

text \<open>
  C8. Lookup. For every \<open>oid\<close> and every directory, \<open>findUser\<close> calls its callback once,
  with a \<open>null\<close> error and a result \<open>r\<close>: when no entry has the \<open>oid\<close>, \<open>r\<close> is absent;
  otherwise \<open>r\<close> is the first entry of the directory whose \<open>oid\<close> equals the argument. The
  directory is handed on as it was.
\<close>

theorem findUser_lookup:
  "\<exists>r. (\<forall>callback. findUser x callback users = callback None r users) \<and>
       (case r of
          None \<Rightarrow> \<forall>u \<in> set users. oid u \<noteq> x
        | Some u \<Rightarrow> \<exists>i < length users. users ! i = u \<and> oid u = x \<and> (\<forall>j < i. oid (users ! j) \<noteq> x))"
proof (intro exI conjI allI)
  fix callback :: "js_error option \<Rightarrow> profile option \<Rightarrow> directory \<Rightarrow> 'r"
  show "findUser x callback users = callback None (find (\<lambda>user. oid user = x) users) users"
    by (simp add: findUser_def)
next
  show "case find (\<lambda>user. oid user = x) users of
          None \<Rightarrow> \<forall>u \<in> set users. oid u \<noteq> x
        | Some u \<Rightarrow> \<exists>i < length users. users ! i = u \<and> oid u = x \<and> (\<forall>j < i. oid (users ! j) \<noteq> x)"
  proof (cases "find (\<lambda>user. oid user = x) users")
    case None
    then have "\<forall>u \<in> set users. oid u \<noteq> x" by (auto simp: find_None_iff)
    with None show ?thesis by simp
  next
    case (Some u)
    then obtain i where "i < length users" "users ! i = u" "oid u = x" "\<forall>j < i. oid (users ! j) \<noteq> x"
      by (auto simp: find_Some_iff)
    with Some show ?thesis by auto
  qed
qed

theorem findUser_lookup_witness:
  "findUser (JString ''abc'') observe [bob, alice, alice'] = (None, Some alice, [bob, alice, alice']) \<and>
   findUser JNull observe [bob, alice, alice'] = (None, None, [bob, alice, alice'])"
  using findUser_lookup [of "JString ''abc''" "[bob, alice, alice']"]
        findUser_lookup [of JNull "[bob, alice, alice']"]
  by (simp add: findUser_def observe_def alice_def alice'_def bob_def)

section \<open>Properties of the session serializer\<close>

text \<open>
  C3. Round trip. For every user record \<open>u\<close> in the directory of a running process,
  serializing \<open>u\<close> and deserializing the identifier reports no error at either step and
  yields \<open>u\<close>. For every \<open>oid\<close> that no entry of a directory has, deserializing reports no
  error and no user, and the library's session handling of that outcome gives a request
  that is not authenticated, not a failed request.
\<close>

theorem deserialize_serialize_roundtrip:
  "(u \<in> set (directory_after ops) \<longrightarrow>
      serializeUser u (\<lambda>err x. (err, deserializeUser x observe (directory_after ops)))
        = (None, None, Some u, directory_after ops)) \<and>
   (x \<notin> oid ` set users \<longrightarrow>
      deserializeUser x observe users = (None, None, users) \<and>
      (\<exists>req'. deserializeUser x (\<lambda>err user users'. restored req err user) users = Inr req' \<and>
              \<not> isAuthenticated req'))"
proof (intro conjI impI)
  assume "u \<in> set (directory_after ops)"
  moreover have "distinct (map oid (directory_after ops))"
    using directory_inv_after [of ops] by (simp add: directory_inv_def)
  ultimately have "find (\<lambda>user. oid user = oid u) (directory_after ops) = Some u"
    by (simp add: find_oid_unique)
  then show "serializeUser u (\<lambda>err x. (err, deserializeUser x observe (directory_after ops)))
        = (None, None, Some u, directory_after ops)"
    by (simp add: serializeUser_def deserializeUser_def findUser_def observe_def)
next
  assume "x \<notin> oid ` set users"
  then have none: "find (\<lambda>user. oid user = x) users = None" by (simp add: find_oid_None)
  then show "deserializeUser x observe users = (None, None, users)"
    by (simp add: deserializeUser_def findUser_def observe_def)
  from none show "\<exists>req'. deserializeUser x (\<lambda>err user users'. restored req err user) users = Inr req' \<and>
              \<not> isAuthenticated req'"
    by (simp add: deserializeUser_def findUser_def restored_def isAuthenticated_def)
qed

theorem deserialize_serialize_roundtrip_witness:
  "alice \<in> set (directory_after [Verify bob, Verify alice]) \<and>
   serializeUser alice (\<lambda>err x. (err, deserializeUser x observe (directory_after [Verify bob, Verify alice])))
     = (None, None, Some alice, [bob, alice]) \<and>
   JString ''abc'' \<notin> oid ` set [bob] \<and>
   deserializeUser (JString ''abc'') observe [bob] = (None, None, [bob]) \<and>
   (\<exists>req'. deserializeUser (JString ''abc'') (\<lambda>err user users'. restored signed_in err user) [bob]
             = Inr req' \<and> \<not> isAuthenticated req')"
proof -
  have fresh: "JString ''abc'' \<notin> oid ` set [bob]" by (simp add: bob_def)
  from deserialize_serialize_roundtrip
         [of alice "[Verify bob, Verify alice]" "JString ''abc''" "[bob]" signed_in]
  show ?thesis unfolding directory_after_samples using fresh by simp
qed

text \<open>
  C10. Serialization is total. For every user object \<open>serializeUser\<close> calls \<open>done\<close> without
  an error and with the value of the \<open>oid\<close> field, whatever that value is. When the value
  is missing, \<open>null\<close> or the empty string, deserializing it against the directory of a
  running process reports no error and no user, since no entry of such a directory has a
  falsy \<open>oid\<close>; the library's session handling of that outcome gives a request that is
  not authenticated, not a failed request.
\<close>

theorem serializeUser_total:
  "serializeUser u done = done None (oid u) \<and>
   (\<not> truthy (oid u) \<longrightarrow>
      deserializeUser (oid u) observe (directory_after ops) = (None, None, directory_after ops) \<and>
      (\<exists>req'. serializeUser u (\<lambda>err x. deserializeUser x (\<lambda>err user users'. restored req err user)
                                        (directory_after ops)) = Inr req' \<and>
              \<not> isAuthenticated req'))"
proof (intro conjI impI)
  show "serializeUser u done = done None (oid u)" by (simp add: serializeUser_def)
next
  assume falsy: "\<not> truthy (oid u)"
  have "list_all (\<lambda>v. truthy (oid v)) (directory_after ops)"
    using directory_inv_after [of ops] by (simp add: directory_inv_def)
  with falsy have "oid u \<notin> oid ` set (directory_after ops)" by (auto simp: list_all_iff)
  then have none: "find (\<lambda>user. oid user = oid u) (directory_after ops) = None"
    by (simp add: find_oid_None)
  then show "deserializeUser (oid u) observe (directory_after ops) = (None, None, directory_after ops)"
    by (simp add: deserializeUser_def findUser_def observe_def)
  from none show "\<exists>req'. serializeUser u (\<lambda>err x. deserializeUser x (\<lambda>err user users'. restored req err user)
                                        (directory_after ops)) = Inr req' \<and>
              \<not> isAuthenticated req'"
    by (simp add: serializeUser_def deserializeUser_def findUser_def restored_def isAuthenticated_def)
qed

theorem serializeUser_total_witness:
  "serializeUser nobody (\<lambda>err x. (err, x)) = (None, JUndefined) \<and>
   \<not> truthy (oid nobody) \<and>
   deserializeUser (oid nobody) observe (directory_after [Verify alice, Verify nobody])
     = (None, None, [alice])"
  using serializeUser_total [of nobody "\<lambda>err x. (err, x)" "[Verify alice, Verify nobody]"]
  unfolding directory_after_samples by (simp add: nobody_def)

section \<open>Properties of the route controller\<close>

text \<open>
  C5. The protected route. A request that is authenticated gets the JSON payload from
  \<open>GET /api\<close>. A request that is not authenticated is redirected to \<open>/login\<close> by
  \<open>ensureAuthenticated\<close>, whatever handler follows the guard, and gets no JSON body. Through
  the session middleware: a session that holds the \<open>oid\<close> of a user in the directory of
  a running process gets the payload; a session that holds no identity, or an \<open>oid\<close> that
  no entry has, is redirected to \<open>/login\<close>.
\<close>

theorem api_requires_authentication:
  "(isAuthenticated req \<longrightarrow> get_api req = Send [(''message'', ''Respone from API endpoint'')]) \<and>
   (\<not> isAuthenticated req \<longrightarrow>
      get_api req = Redirect ''/login'' \<and> (\<forall>body. get_api req \<noteq> Send body) \<and>
      ensureAuthenticated req next = Redirect ''/login'') \<and>
   (u \<in> set (directory_after ops) \<and> session_user req = Some (oid u) \<longrightarrow>
      (\<exists>req'. session_restore (directory_after ops) req = Inr req' \<and>
              get_api req' = Send [(''message'', ''Respone from API endpoint'')])) \<and>
   (session_user req = None \<or> (\<exists>x. session_user req = Some x \<and> x \<notin> oid ` set users) \<longrightarrow>
      (\<exists>req'. session_restore users req = Inr req' \<and> get_api req' = Redirect ''/login''))"
proof (intro conjI impI)
  assume "u \<in> set (directory_after ops) \<and> session_user req = Some (oid u)"
  moreover have "distinct (map oid (directory_after ops))"
    using directory_inv_after [of ops] by (simp add: directory_inv_def)
  ultimately have "session_user req = Some (oid u)"
    and "find (\<lambda>user. oid user = oid u) (directory_after ops) = Some u"
    by (simp_all add: find_oid_unique)
  then show "\<exists>req'. session_restore (directory_after ops) req = Inr req' \<and>
              get_api req' = Send [(''message'', ''Respone from API endpoint'')]"
    by (simp add: session_restore_def deserializeUser_def findUser_def restored_def get_api_def
        ensureAuthenticated_def isAuthenticated_def api_handler_def)
next
  assume "session_user req = None \<or> (\<exists>x. session_user req = Some x \<and> x \<notin> oid ` set users)"
  then show "\<exists>req'. session_restore users req = Inr req' \<and> get_api req' = Redirect ''/login''"
  proof
    assume "session_user req = None"
    then show ?thesis
      by (simp add: session_restore_def get_api_def ensureAuthenticated_def isAuthenticated_def)
  next
    assume "\<exists>x. session_user req = Some x \<and> x \<notin> oid ` set users"
    then obtain x where "session_user req = Some x" and "find (\<lambda>user. oid user = x) users = None"
      by (auto simp: find_oid_None)
    then show ?thesis
      by (simp add: session_restore_def deserializeUser_def findUser_def restored_def get_api_def
          ensureAuthenticated_def isAuthenticated_def)
  qed
qed (simp_all add: get_api_def ensureAuthenticated_def api_handler_def)

theorem api_requires_authentication_witness:
  "isAuthenticated signed_in \<and>
   get_api signed_in = Send [(''message'', ''Respone from API endpoint'')] \<and>
   \<not> isAuthenticated anonymous \<and>
   get_api anonymous = Redirect ''/login'' \<and>
   ensureAuthenticated anonymous api_handler = Redirect ''/login'' \<and>
   alice \<in> set (directory_after [Verify alice, Verify bob]) \<and>
   session_user signed_in = Some (oid alice) \<and>
   (\<exists>req'. session_restore (directory_after [Verify alice, Verify bob]) signed_in = Inr req' \<and>
           get_api req' = Send [(''message'', ''Respone from API endpoint'')]) \<and>
   session_user anonymous = None \<and>
   (\<exists>req'. session_restore [bob] anonymous = Inr req' \<and> get_api req' = Redirect ''/login'')"
proof -
  have auth: "isAuthenticated signed_in" "\<not> isAuthenticated anonymous"
    by (simp_all add: isAuthenticated_def signed_in_def anonymous_def)
  have sess: "session_user signed_in = Some (oid alice)" "session_user anonymous = None"
    by (simp_all add: signed_in_def anonymous_def alice_def)
  have mem: "alice \<in> set [alice, bob]" by simp
  from api_requires_authentication [of signed_in api_handler alice "[Verify alice, Verify bob]" "[bob]"]
       api_requires_authentication [of anonymous api_handler alice "[Verify alice, Verify bob]" "[bob]"]
  show ?thesis unfolding directory_after_samples using auth sess mem by simp
qed

text \<open>
  C6. Logout. Whatever the destruction of the session does to the request and whatever
  error it reports, \<open>GET /logout\<close> answers with a redirect to the configured logout URL of
  the provider, which carries \<open>post_logout_redirect_uri=http://localhost:3000\<close>; the
  request is left without user context and without an identity in its session; the
  reported error has no part in the response.
\<close>

theorem logout_always_redirects:
  "snd (get_logout destroy req) = Redirect destroySessionUrl \<and>
   snd (logout_callback req err) = Redirect destroySessionUrl \<and>
   \<not> isAuthenticated (fst (get_logout destroy req)) \<and>
   session_user (fst (get_logout destroy req)) = None \<and>
   destroySessionUrl =
     ''https://login.microsoftonline.com/common/oauth2/logout'' @ ''?post_logout_redirect_uri=''
       @ ''http://localhost:3000''"
  by (simp add: get_logout_def logout_callback_def logOut_def isAuthenticated_def
      destroySessionUrl_def serverPort_def split: prod.splits)

theorem logout_always_redirects_witness:
  "get_logout failing_destroy signed_in =
     (anonymous,
      Redirect ''https://login.microsoftonline.com/common/oauth2/logout?post_logout_redirect_uri=http://localhost:3000'')"
  using logout_always_redirects [of failing_destroy signed_in]
  by (simp add: get_logout_def failing_destroy_def logout_callback_def logOut_def signed_in_def
      anonymous_def)

end
